theory Spec2Isabelle
  imports Complex_Main "HOL-Library.Sublist"
begin

section \<open>Python values and built-ins used by the ranking code\<close>

text \<open>
  A Python \<^verbatim>\<open>str\<close> is a sequence of Unicode code points, so it is modelled as a list of
  natural numbers (\<open>pystr\<close>); \<open>ascii\<close> embeds an ASCII literal. The Korean literals of the
  source are written out as code points where they are used.

  Metadata values come from a retriever and are dynamically typed. The model has the three
  shapes the code distinguishes: \<^verbatim>\<open>None\<close>, an \<^verbatim>\<open>int\<close> and a \<^verbatim>\<open>str\<close>.

  Numbers: Python \<^verbatim>\<open>int\<close> is \<open>int\<close>; floats are idealised as \<open>real\<close> (no rounding). The places
  where a float operation leaves the finite range are written out: see \<open>np_log1p\<close>,
  \<open>int_to_float\<close> and \<open>np_mean\<close>.
\<close>

type_synonym pystr = "nat list"

definition ascii :: "string \<Rightarrow> pystr" where
  "ascii s = map of_char s"

datatype pyval = PNone | PInt int | PStr pystr

text \<open>
  The exceptions the modelled code can raise. \<open>NonFiniteFloat\<close> is not a Python exception:
  it marks an execution in which numpy produced \<^verbatim>\<open>-inf\<close> or \<^verbatim>\<open>nan\<close> (with a warning only);
  what the program does with such a value afterwards is outside this model.
\<close>

datatype error = ValueError | TypeError | AttributeError | OverflowError | NonFiniteFloat

text \<open>\<^verbatim>\<open>str.isspace\<close> per code point (the whitespace set of \<^verbatim>\<open>str.strip()\<close> and of \<^verbatim>\<open>\s\<close>).\<close>

definition py_isspace :: "nat \<Rightarrow> bool" where
  "py_isspace c \<longleftrightarrow>
     (9 \<le> c \<and> c \<le> 13) \<or> (28 \<le> c \<and> c \<le> 32) \<or> c = 133 \<or> c = 160 \<or> c = 5760 \<or>
     (8192 \<le> c \<and> c \<le> 8202) \<or> c = 8232 \<or> c = 8233 \<or> c = 8239 \<or> c = 8287 \<or> c = 12288"

text \<open>
  Decimal digits. Python's \<^verbatim>\<open>\d\<close> and \<^verbatim>\<open>int()\<close> also accept the decimal digits of other
  scripts (category Nd, a table that depends on the interpreter's Unicode version); the
  model knows the ASCII digits only.
\<close>

definition py_isdigit :: "nat \<Rightarrow> bool" where
  "py_isdigit c \<longleftrightarrow> 48 \<le> c \<and> c \<le> 57"

definition digits_value :: "pystr \<Rightarrow> nat" where
  "digits_value ds = foldl (\<lambda>a c. 10 * a + (c - 48)) 0 ds"

text \<open>\<^verbatim>\<open>s.strip()\<close>\<close>

definition py_strip :: "pystr \<Rightarrow> pystr" where
  "py_strip s = rev (dropWhile py_isspace (rev (dropWhile py_isspace s)))"

text \<open>\<^verbatim>\<open>needle in hay\<close> on strings: \<open>needle\<close> occurs as a contiguous substring.\<close>

fun py_in :: "pystr \<Rightarrow> pystr \<Rightarrow> bool" where
  "py_in needle [] = (needle = [])"
| "py_in needle (h # hs) = (prefix needle (h # hs) \<or> py_in needle hs)"

text \<open>Truthiness, as used by \<^verbatim>\<open>not x\<close>, \<^verbatim>\<open>x or d\<close> and \<^verbatim>\<open>if x\<close>.\<close>

fun truthy :: "pyval \<Rightarrow> bool" where
  "truthy PNone = False"
| "truthy (PInt n) = (n \<noteq> 0)"
| "truthy (PStr s) = (s \<noteq> [])"

definition py_or :: "pyval \<Rightarrow> pyval \<Rightarrow> pyval" where
  "py_or x d = (if truthy x then x else d)"

text \<open>
  \<^verbatim>\<open>int(s)\<close> for a string: surrounding whitespace is stripped, one sign is allowed, and the
  rest is decimal digits, single underscores allowed between digits. Anything else raises
  \<^verbatim>\<open>ValueError\<close>. (The length limit of recent interpreters on digit strings is not modelled.)
\<close>

fun int_body_ok :: "pystr \<Rightarrow> bool" where
  "int_body_ok [] = False"
| "int_body_ok [c] = py_isdigit c"
| "int_body_ok (c # d # cs) =
     (py_isdigit c \<and> (if d = 95 then int_body_ok cs else int_body_ok (d # cs)))"

definition int_of_str :: "pystr \<Rightarrow> error + int" where
  "int_of_str s =
     (let t = py_strip s;
          neg = (case t of c # _ \<Rightarrow> c = 45 | [] \<Rightarrow> False);
          body = (case t of c # cs \<Rightarrow> if c = 43 \<or> c = 45 then cs else t | [] \<Rightarrow> [])
      in if int_body_ok body
         then Inr ((if neg then -1 else 1) * int (digits_value (filter py_isdigit body)))
         else Inl ValueError)"

fun py_int :: "pyval \<Rightarrow> error + int" where
  "py_int PNone = Inl TypeError"
| "py_int (PInt n) = Inr n"
| "py_int (PStr s) = int_of_str s"

text \<open>\<^verbatim>\<open>str(x)\<close>\<close>

fun nat_digits :: "nat \<Rightarrow> pystr" where
  "nat_digits n = (if n < 10 then [48 + n] else nat_digits (n div 10) @ [48 + n mod 10])"

declare nat_digits.simps [simp del]

fun py_str :: "pyval \<Rightarrow> pystr" where
  "py_str PNone = [78, 111, 110, 101]"
| "py_str (PInt n) = (if n < 0 then 45 # nat_digits (nat (- n)) else nat_digits (nat n))"
| "py_str (PStr s) = s"

text \<open>
  \<^verbatim>\<open>re.split(r"[...]+", text)\<close> for a character class \<open>d\<close>: the text is cut at every maximal
  run of delimiters; a leading or trailing run leaves an empty first or last piece.
\<close>

function re_split :: "(nat \<Rightarrow> bool) \<Rightarrow> pystr \<Rightarrow> pystr list" where
  "re_split d [] = [[]]"
| "re_split d (c # cs) =
     (if d c then [] # re_split d (dropWhile d cs)
      else (case re_split d cs of p # ps \<Rightarrow> (c # p) # ps | [] \<Rightarrow> [[c]]))"
  by pat_completeness auto
termination
  by (relation "measure (\<lambda>(d, s). length s)")
     (auto simp: less_Suc_eq_le length_dropWhile_le)

section \<open>Documents\<close>

text \<open>
  A retrieved document: \<^verbatim>\<open>doc.metadata\<close> is a dict or \<^verbatim>\<open>None\<close>, \<^verbatim>\<open>doc.page_content\<close> a string
  or \<^verbatim>\<open>None\<close>. The code reads the keys by their ASCII names.
\<close>

type_synonym metadata = "string \<rightharpoonup> pyval"

record document =
  metadata :: "metadata option"
  page_content :: "pystr option"

text \<open>\<^verbatim>\<open>doc.metadata or {}\<close>, \<^verbatim>\<open>doc.page_content or ""\<close>, \<^verbatim>\<open>md.get(k, default)\<close>\<close>

definition md_or_empty :: "document \<Rightarrow> metadata" where
  "md_or_empty doc = (case metadata doc of None \<Rightarrow> Map.empty | Some md \<Rightarrow> md)"

definition content_or_empty :: "document \<Rightarrow> pystr" where
  "content_or_empty doc = (case page_content doc of None \<Rightarrow> [] | Some t \<Rightarrow> t)"

definition md_get :: "metadata \<Rightarrow> string \<Rightarrow> pyval \<Rightarrow> pyval" where
  "md_get md k dflt = (case md k of None \<Rightarrow> dflt | Some v \<Rightarrow> v)"

text \<open>
  The beginner-equivalent labels of both scorers: the three Korean labels (U+CD08 U+AE09,
  U+C544 U+BB34 U+B098, U+C26C U+C6C0) and \<^verbatim>\<open>"Easy"\<close>; and the intermediate label
  (U+C911 U+AE09).
\<close>

definition easy_levels :: "pystr list" where
  "easy_levels = [[52488, 44553], [50500, 47924, 45208], [49772, 50880], [69, 97, 115, 121]]"

definition level_mid :: pystr where
  "level_mid = [51473, 44553]"

text \<open>
  Collecting the results of a comprehension whose body may raise: the first failure, in list
  order, is the result.
\<close>

fun map_err :: "('a \<Rightarrow> error + 'b) \<Rightarrow> 'a list \<Rightarrow> error + 'b list" where
  "map_err f [] = Inr []"
| "map_err f (x # xs) =
     (case f x of Inl e \<Rightarrow> Inl e
      | Inr y \<Rightarrow> (case map_err f xs of Inl e \<Rightarrow> Inl e | Inr ys \<Rightarrow> Inr (y # ys)))"

text \<open>
  \<^verbatim>\<open>sorted(xs, key=k, reverse=True)\<close> and \<^verbatim>\<open>xs.sort(key=k, reverse=True)\<close>: every key is
  computed first (a raising key aborts the sort), then the items are ordered by descending
  key. Python's sort is stable, also with \<^verbatim>\<open>reverse=True\<close>; the model is an insertion sort
  that walks the input from its end and puts an item in front of the first item whose key
  is not larger.
\<close>

fun insert_desc :: "real \<times> 'a \<Rightarrow> (real \<times> 'a) list \<Rightarrow> (real \<times> 'a) list" where
  "insert_desc x [] = [x]"
| "insert_desc x (y # ys) = (if fst y \<le> fst x then x # y # ys else y # insert_desc x ys)"

definition sort_desc :: "(real \<times> 'a) list \<Rightarrow> (real \<times> 'a) list" where
  "sort_desc ps = foldr insert_desc ps []"

definition with_key :: "('a \<Rightarrow> error + real) \<Rightarrow> 'a \<Rightarrow> error + (real \<times> 'a)" where
  "with_key key x = (case key x of Inl e \<Rightarrow> Inl e | Inr k \<Rightarrow> Inr (k, x))"

definition py_sorted_reverse :: "('a \<Rightarrow> error + real) \<Rightarrow> 'a list \<Rightarrow> error + 'a list" where
  "py_sorted_reverse key xs =
     (case map_err (with_key key) xs of Inl e \<Rightarrow> Inl e
      | Inr ks \<Rightarrow> Inr (map snd (sort_desc ks)))"

text \<open>
  \<^verbatim>\<open>np.log1p(v)\<close> for a Python int \<open>v\<close>: an int outside the 64-bit ranges becomes an object
  array, on which the ufunc raises; \<open>v \<le> -1\<close> gives \<^verbatim>\<open>-inf\<close> or \<^verbatim>\<open>nan\<close>.
\<close>

definition np_log1p :: "int \<Rightarrow> error + real" where
  "np_log1p v =
     (if v < - (2 ^ 63) \<or> 2 ^ 64 \<le> v then Inl TypeError
      else if v \<le> -1 then Inl NonFiniteFloat
      else Inr (ln (1 + real_of_int v)))"

text \<open>
  \<^verbatim>\<open>np.mean(xs)\<close> of a list of finite numbers: the mean of the empty list is \<^verbatim>\<open>nan\<close> (numpy
  warns and does not raise). \<open>NaN\<close> propagates through the arithmetic of the objective and
  compares false with everything.
\<close>

datatype npfloat = Finite real | NaN

definition mean :: "real list \<Rightarrow> real" where
  "mean xs = sum_list xs / real (length xs)"

definition np_mean :: "real list \<Rightarrow> npfloat" where
  "np_mean xs = (if xs = [] then NaN else Finite (mean xs))"

fun np_add :: "npfloat \<Rightarrow> npfloat \<Rightarrow> npfloat" where
  "np_add (Finite a) (Finite b) = Finite (a + b)"
| "np_add _ _ = NaN"

fun np_times :: "real \<Rightarrow> npfloat \<Rightarrow> npfloat" where
  "np_times c (Finite a) = Finite (c * a)"
| "np_times c NaN = NaN"

fun np_neg :: "npfloat \<Rightarrow> npfloat" where
  "np_neg (Finite a) = Finite (- a)"
| "np_neg NaN = NaN"

fun np_le :: "npfloat \<Rightarrow> npfloat \<Rightarrow> bool" where
  "np_le (Finite a) (Finite b) = (a \<le> b)"
| "np_le _ _ = False"

section \<open>The optimizer's scorer: \<^verbatim>\<open>AutoRanker\<close> (optim.py)\<close>

record ranker =
  params :: "real list"

text \<open>\<^verbatim>\<open>__init__\<close>: the weights \<^verbatim>\<open>[w_ing, w_level, w_pop, w_style, p_time]\<close>.\<close>

definition init_ranker :: ranker where
  "init_ranker = \<lparr>params = [2, 1, 1 / 2, 1, 1]\<rparr>"

text \<open>\<^verbatim>\<open>_level_score\<close>\<close>

definition level_score :: "pyval \<Rightarrow> real" where
  "level_score level =
     (if level \<in> set (map PStr easy_levels) then 1
      else if level = PStr level_mid then 1 / 2
      else 0)"

text \<open>\<^verbatim>\<open>_parse_time\<close>\<close>

definition parse_time :: "pyval \<Rightarrow> nat" where
  "parse_time t =
     (if py_in (ascii ''30'') (py_str t) then 0
      else if py_in (ascii ''60'') (py_str t) then 1
      else 2)"

text \<open>The features computed in the body of \<^verbatim>\<open>score\<close>, named after its local variables.\<close>

definition ing_hit :: "pystr list \<Rightarrow> pystr \<Rightarrow> nat" where
  "ing_hit user_ings text = length (filter (\<lambda>ing. py_in (py_strip ing) text) user_ings)"

definition pop_score :: "metadata \<Rightarrow> error + real" where
  "pop_score md =
     (case py_int (md_get md ''views'' (PInt 0)) of Inl e \<Rightarrow> Inl e | Inr v \<Rightarrow> np_log1p v)"

definition style_score :: "pystr \<Rightarrow> pystr \<Rightarrow> metadata \<Rightarrow> nat" where
  "style_score style_hint text md =
     (if style_hint \<noteq> [] \<and>
         (py_in style_hint text
          \<or> py_in style_hint (py_str (md_get md ''method'' (PStr [])))
          \<or> py_in style_hint (py_str (md_get md ''situation'' (PStr []))))
      then 1 else 0)"

definition time_pen :: "metadata \<Rightarrow> nat" where
  "time_pen md = parse_time (md_get md ''time'' (PStr []))"

text \<open>
  \<^verbatim>\<open>score\<close>: the features are computed in the source's order, then \<^verbatim>\<open>self.params\<close> is
  unpacked into five names (which raises \<^verbatim>\<open>ValueError\<close> for any other length).
\<close>

definition score :: "ranker \<Rightarrow> document \<Rightarrow> pystr list \<Rightarrow> pystr \<Rightarrow> error + real" where
  "score self doc user_ings style_hint =
     (let md = md_or_empty doc;
          text = content_or_empty doc
      in case pop_score md of Inl e \<Rightarrow> Inl e
         | Inr pop \<Rightarrow>
            (case params self of
               [w_ing, w_level, w_pop, w_style, p_time] \<Rightarrow>
                 Inr (w_ing * real (ing_hit user_ings text)
                      + w_level * level_score (md_get md ''level'' (PStr []))
                      + w_pop * pop
                      + w_style * real (style_score style_hint text md)
                      - p_time * real (time_pen md))
             | _ \<Rightarrow> Inl ValueError))"

subsection \<open>The proxy objective \<^verbatim>\<open>_objective\<close>\<close>

text \<open>
  The four statistics over \<^verbatim>\<open>top\<close> (\<open>top5\<close> below). Here the source reads \<^verbatim>\<open>d.metadata.get\<close> without the
  \<^verbatim>\<open>or {}\<close> of \<^verbatim>\<open>score\<close>, so a document whose metadata is \<^verbatim>\<open>None\<close> raises \<^verbatim>\<open>AttributeError\<close>.
\<close>

definition obj_views :: "document \<Rightarrow> error + real" where
  "obj_views d =
     (case metadata d of None \<Rightarrow> Inl AttributeError
      | Some md \<Rightarrow>
         (case py_int (md_get md ''views'' (PInt 0)) of Inl e \<Rightarrow> Inl e
          | Inr v \<Rightarrow> Inr (real_of_int v)))"

definition obj_ing_count :: "pystr list \<Rightarrow> document \<Rightarrow> nat" where
  "obj_ing_count user_ings d =
     length (filter (\<lambda>ing. py_in ing (content_or_empty d)) user_ings)"

definition obj_style :: "pystr \<Rightarrow> document \<Rightarrow> error + nat" where
  "obj_style style_hint d =
     (if style_hint = [] then Inr 0
      else if py_in style_hint (content_or_empty d) then Inr 1
      else (case metadata d of None \<Rightarrow> Inl AttributeError
            | Some md \<Rightarrow>
               Inr (if py_in style_hint (py_str (md_get md ''situation'' (PStr [])))
                       \<or> py_in style_hint (py_str (md_get md ''method'' (PStr [])))
                    then 1 else 0)))"

definition obj_level :: "document \<Rightarrow> error + nat" where
  "obj_level d =
     (case metadata d of None \<Rightarrow> Inl AttributeError
      | Some md \<Rightarrow> Inr (if md_get md ''level'' PNone \<in> set (map PStr easy_levels) then 1 else 0))"

definition final_score :: "npfloat \<Rightarrow> npfloat \<Rightarrow> npfloat \<Rightarrow> npfloat \<Rightarrow> npfloat" where
  "final_score views ing_match style_match level_match =
     np_add (np_add (np_add views (np_times 2000 ing_match)) (np_times 1000 style_match))
            (np_times 500 level_match)"

text \<open>\<^verbatim>\<open>ranked[:5]\<close> of the objective, with the weights \<^verbatim>\<open>self.params\<close> already set.\<close>

definition ranked :: "ranker \<Rightarrow> document list \<Rightarrow> pystr list \<Rightarrow> pystr \<Rightarrow> error + document list" where
  "ranked self docs user_ings style_hint =
     py_sorted_reverse (\<lambda>d. score self d user_ings style_hint) docs"

definition evaluate_top :: "document list \<Rightarrow> pystr list \<Rightarrow> pystr \<Rightarrow> error + npfloat" where
  "evaluate_top top5 user_ings style_hint =
     (case map_err obj_views top5 of Inl e \<Rightarrow> Inl e
      | Inr vs \<Rightarrow>
         (case map_err (obj_style style_hint) top5 of Inl e \<Rightarrow> Inl e
          | Inr ss \<Rightarrow>
             (case map_err obj_level top5 of Inl e \<Rightarrow> Inl e
              | Inr ls \<Rightarrow>
                 Inr (np_neg (final_score
                        (np_mean vs)
                        (np_mean (map (\<lambda>d. real (obj_ing_count user_ings d)) top5))
                        (np_mean (map real ss))
                        (np_mean (map real ls)))))))"

text \<open>
  \<^verbatim>\<open>_objective\<close> first assigns \<^verbatim>\<open>self.params = params\<close>; the model returns the result
  together with the ranker after the call. The assignment has happened also when the rest
  of the body raises.
\<close>

definition objective ::
  "ranker \<Rightarrow> real list \<Rightarrow> document list \<Rightarrow> pystr list \<Rightarrow> pystr \<Rightarrow> (error + npfloat) \<times> ranker" where
  "objective self ps docs user_ings style_hint =
     (let self' = self\<lparr>params := ps\<rparr>
      in (case ranked self' docs user_ings style_hint of Inl e \<Rightarrow> Inl e
          | Inr r \<Rightarrow> evaluate_top (take 5 r) user_ings style_hint,
          self'))"

section \<open>The inference-time scorer (rag\_pipeline.py)\<close>

text \<open>
  \<^verbatim>\<open>parse_ingredients\<close>: the sentinels are the Korean word for "none" (U+C5C6 U+C74C),
  \<^verbatim>\<open>"none"\<close> and \<^verbatim>\<open>"None"\<close>; the separators are comma, slash, backslash, bar and newline.
\<close>

definition no_ingredients :: "pystr list" where
  "no_ingredients = [[50630, 51020], ascii ''none'', ascii ''None'']"

definition is_separator :: "nat \<Rightarrow> bool" where
  "is_separator c \<longleftrightarrow> c = 44 \<or> c = 47 \<or> c = 92 \<or> c = 124 \<or> c = 10"

definition parse_ingredients :: "pystr \<Rightarrow> pystr list" where
  "parse_ingredients text =
     (if text = [] \<or> py_strip text \<in> set no_ingredients then []
      else map py_strip (filter (\<lambda>i. py_strip i \<noteq> []) (re_split is_separator text)))"

text \<open>
  \<^verbatim>\<open>normalize_level\<close>: \<^verbatim>\<open>(level or "").strip()\<close>. A truthy value that is not a string has no
  \<^verbatim>\<open>strip\<close>.
\<close>

definition normalize_level :: "pyval \<Rightarrow> error + pystr" where
  "normalize_level level =
     (case py_or level (PStr []) of PStr s \<Rightarrow> Inr (py_strip s) | _ \<Rightarrow> Inl AttributeError)"

text \<open>
  \<^verbatim>\<open>re.search(r"(\d+)\s*<min>", t)\<close>, where \<^verbatim>\<open><min>\<close> is the Korean word for "minute"
  (U+BD84): the leftmost position at which a maximal run of digits, then any whitespace,
  then the word follows. (Giving back digits or whitespace never helps the match, since the
  next character is then a digit or a whitespace, not the word.) The result is group 1.
\<close>

definition match_here :: "pystr \<Rightarrow> pystr option" where
  "match_here s =
     (let ds = takeWhile py_isdigit s;
          r = dropWhile py_isspace (dropWhile py_isdigit s)
      in if ds \<noteq> [] \<and> (case r of c # _ \<Rightarrow> c = 48516 | [] \<Rightarrow> False) then Some ds else None)"

fun re_search :: "pystr \<Rightarrow> pystr option" where
  "re_search [] = None"
| "re_search (c # cs) =
     (case match_here (c # cs) of Some ds \<Rightarrow> Some ds | None \<Rightarrow> re_search cs)"

text \<open>
  \<^verbatim>\<open>time_to_minutes\<close>; the marker tested with \<^verbatim>\<open>in\<close> is the Korean word for "information"
  (U+C815 U+BCF4), as in "no information".
\<close>

definition no_info :: pystr where
  "no_info = [51221, 48372]"

definition time_to_minutes :: "pyval \<Rightarrow> error + nat" where
  "time_to_minutes time_str =
     (if \<not> truthy time_str then Inr 9999
      else (case time_str of
              PStr s \<Rightarrow>
                (let t = py_strip s
                 in if py_in no_info t then Inr 9999
                    else (case re_search t of Some ds \<Rightarrow> Inr (digits_value ds)
                          | None \<Rightarrow> Inr 9999))
            | _ \<Rightarrow> Inl AttributeError))"

text \<open>
  \<^verbatim>\<open>views / 5000.0\<close> converts the int to a float first, which raises \<^verbatim>\<open>OverflowError\<close> for
  an int that rounds beyond the largest double.
\<close>

definition int_to_float :: "int \<Rightarrow> error + real" where
  "int_to_float v =
     (if 2 ^ 1024 - 2 ^ 970 \<le> \<bar>v\<bar> then Inl OverflowError else Inr (real_of_int v))"

text \<open>The features of \<^verbatim>\<open>score_doc\<close>, named after its local variables.\<close>

definition doc_ing_hit :: "pystr list \<Rightarrow> pystr \<Rightarrow> nat" where
  "doc_ing_hit user_ings text = length (filter (\<lambda>ing. ing \<noteq> [] \<and> py_in ing text) user_ings)"

definition doc_level_score :: "pystr \<Rightarrow> real" where
  "doc_level_score level =
     (if level \<in> set easy_levels then 5
      else if level \<in> set [level_mid] then 2
      else 0)"

text \<open>The style sentinel "no preference" (U+C0C1 U+AD00 U+C5C6 U+C74C).\<close>

definition no_preference :: pystr where
  "no_preference = [49345, 44288, 50630, 51020]"

definition doc_style_score :: "pystr \<Rightarrow> pystr \<Rightarrow> metadata \<Rightarrow> real" where
  "doc_style_score style_hint text md =
     (if style_hint \<noteq> [] \<and> style_hint \<noteq> no_preference
      then (if py_in style_hint text
               \<or> py_in style_hint (py_str (md_get md ''situation'' (PStr [])))
               \<or> py_in style_hint (py_str (md_get md ''method'' (PStr [])))
            then 3 / 2 else 0)
      else 0)"

definition time_penalty :: "nat \<Rightarrow> real" where
  "time_penalty cook_time =
     (if cook_time \<le> 30 then 0 else if cook_time \<le> 60 then 1 / 2 else 3 / 2)"

record debug =
  dbg_ing_hit :: nat
  dbg_level :: pystr
  dbg_views :: int
  dbg_cook_time :: nat
  dbg_final :: real

definition score_doc :: "document \<Rightarrow> pystr list \<Rightarrow> pystr \<Rightarrow> error + (real \<times> debug)" where
  "score_doc doc user_ings style_hint =
     (let md = md_or_empty doc;
          text = content_or_empty doc
      in case normalize_level (md_get md ''level'' (PStr [])) of Inl e \<Rightarrow> Inl e
         | Inr level \<Rightarrow>
      (case py_int (py_or (md_get md ''views'' (PInt 0)) (PInt 0)) of Inl e \<Rightarrow> Inl e
         | Inr views \<Rightarrow>
      (case time_to_minutes (md_get md ''time'' (PStr [])) of Inl e \<Rightarrow> Inl e
         | Inr cook_time \<Rightarrow>
      (case int_to_float views of Inl e \<Rightarrow> Inl e
         | Inr fviews \<Rightarrow>
           (let hits = doc_ing_hit user_ings text;
                final = real hits * 3 + doc_level_score level * (3 / 2)
                        + min 5 (fviews / 5000) * 1
                        + doc_style_score style_hint text md
                        - time_penalty cook_time
            in Inr (final, \<lparr>dbg_ing_hit = hits, dbg_level = level, dbg_views = views,
                            dbg_cook_time = cook_time, dbg_final = final\<rparr>))))))"

text \<open>
  The ranking part of \<^verbatim>\<open>suggest_menus\<close>, for the candidates \<open>docs\<close> the retriever returned:
  every document is scored, the triples are sorted by score, descending, and the first five
  are kept.
\<close>

definition scored_sorted ::
  "document list \<Rightarrow> pystr list \<Rightarrow> pystr \<Rightarrow> error + (real \<times> document \<times> debug) list" where
  "scored_sorted docs user_ings style_hint =
     (case map_err (\<lambda>d. case score_doc d user_ings style_hint of Inl e \<Rightarrow> Inl e
                         | Inr (s, dbg) \<Rightarrow> Inr (s, d, dbg)) docs of
        Inl e \<Rightarrow> Inl e
      | Inr scored \<Rightarrow> Inr (sort_desc scored))"

definition suggest_top ::
  "document list \<Rightarrow> pystr \<Rightarrow> pystr \<Rightarrow> error + (real \<times> document \<times> debug) list" where
  "suggest_top docs ingredients style_hint =
     (case scored_sorted docs (parse_ingredients ingredients) style_hint of Inl e \<Rightarrow> Inl e
      | Inr scored \<Rightarrow> Inr (take 5 scored))"

text \<open>
  The script at the end of optim.py builds the ingredient list with
  \<^verbatim>\<open>[i.strip() for i in ingredients.split(",")]\<close>; \<^verbatim>\<open>str.split(",")\<close> cuts at every comma and
  keeps empty pieces.
\<close>

fun split_at :: "nat \<Rightarrow> pystr \<Rightarrow> pystr list" where
  "split_at sep [] = [[]]"
| "split_at sep (c # cs) =
     (if c = sep then [] # split_at sep cs
      else (case split_at sep cs of p # ps \<Rightarrow> (c # p) # ps | [] \<Rightarrow> [[c]]))"

definition main_user_ings :: "pystr \<Rightarrow> pystr list" where
  "main_user_ings ingredients = map py_strip (split_at 44 ingredients)"

section \<open>Metadata shapes\<close>



section \<open>Example inputs\<close>

text \<open>
  The cook-time strings "10 minutes or less", "30 minutes or less" and "120 minutes or
  less" as the data writes them: the digits followed by U+BD84 U+C774 U+B0B4.
\<close>

definition within_10 :: pystr where
  "within_10 = ascii ''10'' @ [48516, 51060, 45236]"

definition within_30 :: pystr where
  "within_30 = ascii ''30'' @ [48516, 51060, 45236]"

definition within_120 :: pystr where
  "within_120 = ascii ''120'' @ [48516, 51060, 45236]"

text \<open>The beginner label (U+CD08 U+AE09) and the advanced label (U+ACE0 U+AE09).\<close>

definition beginner :: pystr where
  "beginner = [52488, 44553]"

definition advanced :: pystr where
  "advanced = [44256, 44553]"

text \<open>
  The two documents of the specification's ranking scenario, for any content:
  A is a popular beginner recipe of 30 minutes, B an advanced one of 120 minutes.
\<close>

definition scenario_A :: "pystr \<Rightarrow> document" where
  "scenario_A content =
     \<lparr>metadata = Some [''level'' \<mapsto> PStr beginner, ''views'' \<mapsto> PInt 10000,
                        ''time'' \<mapsto> PStr within_30],
      page_content = Some content\<rparr>"

definition scenario_B :: "pystr \<Rightarrow> document" where
  "scenario_B content =
     \<lparr>metadata = Some [''level'' \<mapsto> PStr advanced, ''views'' \<mapsto> PInt 500,
                        ''time'' \<mapsto> PStr within_120],
      page_content = Some content\<rparr>"


text \<open>A document without metadata fields whose content is \<^verbatim>\<open>"tofu and onion"\<close>.\<close>

definition tofu_onion :: document where
  "tofu_onion = \<lparr>metadata = Some Map.empty, page_content = Some (ascii ''tofu and onion'')\<rparr>"

section \<open>Properties of the built-ins\<close>

lemma py_in_Nil [simp]: "py_in [] hay"
  by (cases hay) simp_all

lemma py_in_sublist: "py_in needle hay \<longleftrightarrow> sublist needle hay"
  by (induction hay) (auto simp: sublist_Cons_right)






lemma main_user_ings_trailing_comma:
  "main_user_ings (ascii ''tofu, onion,'') = [ascii ''tofu'', ascii ''onion'', []]"
  by (simp add: main_user_ings_def ascii_def py_strip_def py_isspace_def)

section \<open>Ingredient lists\<close>

text \<open>
  Claim C9. In the optimizer's scorer an ingredient entry that is empty after trimming (a
  whitespace-only entry, as a trailing comma leaves one: see
  \<open>main_user_ings_trailing_comma\<close>) is a hit for every document, whatever its content:
  wherever the entry stands in the list, it adds exactly one to \<open>ing_hit\<close>.
\<close>

theorem blank_ingredient_hits_every_document:
  "py_strip ing = [] \<Longrightarrow> ing_hit (xs @ ing # ys) content = Suc (ing_hit (xs @ ys) content)"
  by (simp add: ing_hit_def)

theorem blank_ingredient_hits_every_document_witness:
  "py_strip (ascii '' '') = [] \<and>
   ing_hit ([ascii ''tofu''] @ ascii '' '' # []) (ascii ''rice'') = 1 \<and>
   ing_hit ([ascii ''tofu''] @ []) (ascii ''rice'') = 0"
proof -
  have h: "py_strip (ascii '' '') = []"
    by (simp add: py_strip_def py_isspace_def ascii_def)
  have z: "ing_hit ([ascii ''tofu''] @ []) (ascii ''rice'') = 0"
    by (simp add: ing_hit_def ascii_def py_strip_def py_isspace_def)
  from blank_ingredient_hits_every_document [OF h, of "[ascii ''tofu'']" "[]" "ascii ''rice''"] h z
  show ?thesis by simp
qed



section \<open>Evaluation\<close>

text \<open>The definitions that evaluate the model on a concrete input.\<close>

lemmas string_eval = ascii_def py_strip_def py_isspace_def py_isdigit_def

lemmas feature_eval = md_or_empty_def content_or_empty_def md_get_def

lemmas optim_eval = score_def pop_score_def np_log1p_def ing_hit_def level_score_def
  style_score_def time_pen_def parse_time_def easy_levels_def level_mid_def Let_def

lemmas objective_eval = evaluate_top_def obj_views_def obj_style_def obj_level_def
  obj_ing_count_def final_score_def np_mean_def mean_def easy_levels_def


lemmas scenario_eval = scenario_A_def scenario_B_def beginner_def advanced_def within_30_def
  within_120_def

section \<open>The descending stable sort\<close>












lemma map_err_results:
  "map_err f xs = Inr ys \<Longrightarrow> length ys = length xs \<and> (\<forall>y\<in>set ys. \<exists>x\<in>set xs. f x = Inr y)"
  by (induction xs arbitrary: ys) (auto split: sum.splits)






section \<open>Ranking\<close>










section \<open>Cook time\<close>

text \<open>
  In the inference-time scorer the penalty is a step function of the minutes that
  \<open>time_to_minutes\<close> parses, and it never decreases when the minutes grow.
\<close>

lemma time_penalty_mono: "m1 \<le> m2 \<Longrightarrow> time_penalty m1 \<le> time_penalty m2"
  by (simp add: time_penalty_def)

lemma time_penalty_no_info:
  "time_to_minutes (PStr (no_info @ 32 # [50630, 51020])) = Inr 9999 \<and> time_penalty 9999 = 3 / 2"
  by (simp add: time_to_minutes_def time_penalty_def no_info_def string_eval)

text \<open>
  Claim C3. The optimizer's \<open>parse_time\<close> does not parse minutes: it looks for the
  substrings "30" and "60". For the cook times "10 minutes or less" and "30 minutes or
  less", the minutes are 10 and 30, yet the first gets the largest penalty 2 and the second
  the penalty 0: the penalty is not a non-decreasing function of the minutes.
\<close>

theorem optimizer_time_penalty_not_monotone:
  "time_to_minutes (PStr within_10) = Inr 10 \<and>
   time_to_minutes (PStr within_30) = Inr 30 \<and>
   parse_time (PStr within_10) = 2 \<and>
   parse_time (PStr within_30) = 0"
  by (simp add: time_to_minutes_def within_10_def within_30_def parse_time_def no_info_def
        match_here_def digits_value_def string_eval)

section \<open>Style hint\<close>

text \<open>
  Claim C4. The inference-time scorer gives the style score 0 for the "no preference"
  sentinel; the optimizer's scorer has no such test. For a content that contains the
  sentinel text, the optimizer's style score under the sentinel hint is 1, where the
  inference-time score is 0.
\<close>

theorem optimizer_style_score_ignores_sentinel:
  "style_score no_preference (ascii ''spicy: '' @ no_preference) Map.empty = 1 \<and>
   doc_style_score no_preference (ascii ''spicy: '' @ no_preference) Map.empty = 0"
  by (simp add: style_score_def doc_style_score_def no_preference_def ascii_def)

lemma doc_style_score_spec:
  "doc_style_score style_hint content md =
     (if style_hint = [] \<or> style_hint = no_preference then 0
      else if py_in style_hint content
              \<or> py_in style_hint (py_str (md_get md ''method'' (PStr [])))
              \<or> py_in style_hint (py_str (md_get md ''situation'' (PStr [])))
           then 3 / 2 else 0)"
  by (auto simp: doc_style_score_def)

section \<open>The objective and the ranker's state\<close>

text \<open>
  Claim C5, as stated, fails: the objective assigns its trial weights to the ranker. After
  evaluating it with the weights \<^verbatim>\<open>[0, 0, 0, 0, 0]\<close> on the initial ranker, the ranker's weights
  are no longer the initial ones.
\<close>

theorem objective_overwrites_weights:
  "params (snd (objective init_ranker [0, 0, 0, 0, 0] [] [] [])) \<noteq> params init_ranker"
  by (simp add: objective_def init_ranker_def Let_def)

text \<open>
  Claim C5, amended. An objective evaluation leaves the ranker holding exactly the trial
  weights it was called with, and its result does not depend on the weights the ranker held
  before: calls with identical arguments give identical results from any prior state.
\<close>

theorem objective_state_and_determinism:
  "snd (objective self ps docs user_ings style_hint) = self\<lparr>params := ps\<rparr> \<and>
   fst (objective self ps docs user_ings style_hint) =
   fst (objective other ps docs user_ings style_hint)"
proof -
  have "score (self\<lparr>params := ps\<rparr>) = score (other\<lparr>params := ps\<rparr>)"
    by (auto simp: score_def Let_def fun_eq_iff split: sum.splits)
  then show ?thesis by (simp add: objective_def ranked_def Let_def)
qed

text \<open>
  Claim C7, as stated, fails: on the empty candidate list the objective returns \<^verbatim>\<open>nan\<close>, the
  mean of an empty list. That is no minimal value: compared with the value the objective
  returns for a one-document list, \<^verbatim>\<open>nan\<close> is neither smaller nor larger.
\<close>

theorem empty_set_fitness_is_not_minimal:
  "fst (objective init_ranker (params init_ranker) [] [ascii ''tofu'', ascii ''onion''] [])
     = Inr NaN \<and>
   fst (objective init_ranker (params init_ranker) [tofu_onion] [ascii ''tofu'', ascii ''onion''] [])
     = Inr (Finite (- 4000)) \<and>
   \<not> np_le (Finite (- 4000)) NaN \<and> \<not> np_le NaN (Finite (- 4000))"
  by (simp add: objective_def ranked_def py_sorted_reverse_def with_key_def sort_desc_def
        tofu_onion_def init_ranker_def optim_eval objective_eval feature_eval string_eval)

text \<open>
  Claim C7, amended. On the empty candidate list the objective evaluation completes
  without raising, for any weights, ingredients and style hint, and returns \<^verbatim>\<open>nan\<close>; \<^verbatim>\<open>nan\<close>
  compares neither below nor above any value.
\<close>

theorem empty_set_fitness_is_nan:
  "fst (objective self ps [] user_ings style_hint) = Inr NaN \<and>
   \<not> np_le x NaN \<and> \<not> np_le NaN x"
  by (cases x)
     (simp_all add: objective_def ranked_def py_sorted_reverse_def sort_desc_def
        evaluate_top_def final_score_def np_mean_def Let_def)

section \<open>The components of the fitness\<close>

lemma sum_list_between:
  fixes xs :: "real list"
  assumes "\<forall>x\<in>set xs. a \<le> x \<and> x \<le> b"
  shows "a * real (length xs) \<le> sum_list xs \<and> sum_list xs \<le> b * real (length xs)"
  using assms by (induction xs) (auto simp: algebra_simps)

lemma mean_between:
  assumes "xs \<noteq> []" and "\<forall>x\<in>set xs. a \<le> x \<and> x \<le> b"
  shows "a \<le> mean xs \<and> mean xs \<le> b"
proof -
  from assms(1) have pos: "0 < real (length xs)" by simp
  from sum_list_between[OF assms(2)] pos show ?thesis
    by (simp add: mean_def pos_le_divide_eq pos_divide_le_eq)
qed

lemma obj_style_le: "obj_style style_hint d = Inr n \<Longrightarrow> n \<le> 1"
  by (auto simp: obj_style_def split: if_splits option.splits)

lemma obj_level_le: "obj_level d = Inr n \<Longrightarrow> n \<le> 1"
  by (auto simp: obj_level_def split: if_splits option.splits)

lemma obj_ing_count_le: "obj_ing_count user_ings d \<le> length user_ings"
  by (simp add: obj_ing_count_def)

text \<open>
  Claim C2, as stated, fails: the ingredient component is the mean number of matching
  ingredient terms, not a fraction. For one document that contains both "tofu" and
  "onion" it is 2, and the objective returns \<open>- 4000\<close>.
\<close>

theorem ingredient_component_exceeds_one:
  "np_mean (map (\<lambda>d. real (obj_ing_count [ascii ''tofu'', ascii ''onion''] d)) [tofu_onion])
     = Finite 2 \<and>
   evaluate_top [tofu_onion] [ascii ''tofu'', ascii ''onion''] [] = Inr (Finite (- 4000))"
  by (simp add: tofu_onion_def objective_eval feature_eval string_eval)

text \<open>
  Claim C2, amended. For a non-empty top-K list on which the objective returns, the value
  returned is the negated fitness, and the fitness is the mean of the views plus 2000 times
  the mean number of ingredient terms present per item, plus 1000 times the mean of the
  style matches, plus 500 times the mean of the beginner-level matches. The ingredient
  component lies between 0 and the number of ingredient terms; the style and the level
  component lie in [0, 1].
\<close>

theorem fitness_components:
  assumes "top5 \<noteq> []" and "evaluate_top top5 user_ings style_hint = Inr f"
  shows "\<exists>vs ss ls.
     map_err obj_views top5 = Inr vs \<and>
     map_err (obj_style style_hint) top5 = Inr ss \<and>
     map_err obj_level top5 = Inr ls \<and>
     f = Finite (- (mean vs
                    + 2000 * mean (map (\<lambda>d. real (obj_ing_count user_ings d)) top5)
                    + 1000 * mean (map real ss)
                    + 500 * mean (map real ls))) \<and>
     0 \<le> mean (map (\<lambda>d. real (obj_ing_count user_ings d)) top5) \<and>
     mean (map (\<lambda>d. real (obj_ing_count user_ings d)) top5) \<le> real (length user_ings) \<and>
     0 \<le> mean (map real ss) \<and> mean (map real ss) \<le> 1 \<and>
     0 \<le> mean (map real ls) \<and> mean (map real ls) \<le> 1"
proof -
  from assms(2) obtain vs ss ls where
    vs: "map_err obj_views top5 = Inr vs" and
    ss: "map_err (obj_style style_hint) top5 = Inr ss" and
    ls: "map_err obj_level top5 = Inr ls" and
    f: "f = np_neg (final_score (np_mean vs)
                        (np_mean (map (\<lambda>d. real (obj_ing_count user_ings d)) top5))
                        (np_mean (map real ss))
                        (np_mean (map real ls)))"
    by (auto simp: evaluate_top_def split: sum.splits)
  from map_err_results[OF vs] map_err_results[OF ss] map_err_results[OF ls] assms(1)
  have ne: "vs \<noteq> []" "ss \<noteq> []" "ls \<noteq> []" by auto
  have f': "f = Finite (- (mean vs
                    + 2000 * mean (map (\<lambda>d. real (obj_ing_count user_ings d)) top5)
                    + 1000 * mean (map real ss)
                    + 500 * mean (map real ls)))"
    using ne assms(1) by (simp add: f final_score_def np_mean_def)
  have ing: "0 \<le> mean (map (\<lambda>d. real (obj_ing_count user_ings d)) top5) \<and>
     mean (map (\<lambda>d. real (obj_ing_count user_ings d)) top5) \<le> real (length user_ings)"
    using assms(1) by (intro mean_between) (auto simp: obj_ing_count_le)
  have "\<forall>n\<in>set ss. n \<le> 1"
    using map_err_results[OF ss] obj_style_le by blast
  then have sty: "0 \<le> mean (map real ss) \<and> mean (map real ss) \<le> 1"
    using ne(2) by (intro mean_between) auto
  have "\<forall>n\<in>set ls. n \<le> 1"
    using map_err_results[OF ls] obj_level_le by blast
  then have lev: "0 \<le> mean (map real ls) \<and> mean (map real ls) \<le> 1"
    using ne(3) by (intro mean_between) auto
  from vs ss ls f' ing sty lev show ?thesis by blast
qed

theorem fitness_components_witness:
  "[scenario_A (ascii ''tofu''), scenario_B []] \<noteq> [] \<and>
   evaluate_top [scenario_A (ascii ''tofu''), scenario_B []] [ascii ''tofu'', ascii ''onion''] []
     = Inr (Finite (- 6500)) \<and>
   mean (map (\<lambda>d. real (obj_ing_count [ascii ''tofu'', ascii ''onion''] d))
           [scenario_A (ascii ''tofu''), scenario_B []]) = 1 / 2"
proof -
  let ?top = "[scenario_A (ascii ''tofu''), scenario_B []]"
  let ?ings = "[ascii ''tofu'', ascii ''onion'']"
  have e: "evaluate_top ?top ?ings [] = Inr (Finite (- 6500))"
    by (simp add: scenario_eval objective_eval feature_eval string_eval)
  have m: "mean (map (\<lambda>d. real (obj_ing_count ?ings d)) ?top) = 1 / 2"
    by (simp add: mean_def obj_ing_count_def scenario_eval feature_eval string_eval)
  from fitness_components [of ?top ?ings "[]" "Finite (- 6500)"] e m
  show ?thesis by simp
qed

section \<open>Totality of scoring\<close>















end
